theory Spec2Isabelle
  imports Complex_Main
begin

section \<open>The live session hook (src/hooks/useGeminiLive.ts)\<close>

text \<open>
  The hook keeps React state (\<open>isConnected\<close>, \<open>isStreaming\<close>, \<open>isMicOn\<close>, \<open>status\<close>,
  \<open>error\<close>) and a number of refs. Browser objects (audio contexts, nodes, streams, tracks,
  promises) are represented by handles; a ref holding \<open>null\<close> is \<open>None\<close>. Every call the
  hook makes on such an object, and every \<open>setStatus\<close>, is appended to the field
  \<open>effects\<close>, in program order. Wiring calls between audio nodes (\<open>connect\<close>) and console
  output are not recorded. Times and durations are the numbers of the Web Audio clock, in
  seconds.
\<close>

type_synonym handle = nat

datatype AudioStatus = Inactive | Listening | Speaking | Processing

datatype track_kind = AudioKind | VideoKind

record MediaStream =
  stream_id :: handle
  tracks :: "(handle \<times> track_kind) list"

definition getTracks :: "MediaStream \<Rightarrow> handle list" where
  "getTracks st = map fst (tracks st)"

definition getAudioTracks :: "MediaStream \<Rightarrow> handle list" where
  "getAudioTracks st = map fst (filter (\<lambda>t. snd t = AudioKind) (tracks st))"

definition getVideoTracks :: "MediaStream \<Rightarrow> handle list" where
  "getVideoTracks st = map fst (filter (\<lambda>t. snd t = VideoKind) (tracks st))"

text \<open>
  What is handed to \<open>session.sendRealtimeInput\<close>: the blob \<open>createAudioBlob\<close> makes of one
  captured frame (that helper lives in utils/audio, outside the sources at hand, so the
  blob is identified by the frame it was made of), or one JPEG snapshot in base64.
\<close>

datatype media = AudioBlobOf "real list" | JpegImage string

datatype effect =
    NodeDisconnect handle
  | TrackStop handle
  | TrackEnabled handle bool
  | ContextClose handle
  | SourceStart handle real real
  | SourceStop handle
  | SourceEnded handle
  | ClearInterval nat
  | SetInterval nat
  | SendRealtimeInput handle media
  | SetStatus AudioStatus

text \<open>
  \<open>SourceStart h t d\<close> is \<open>source.start(t)\<close> on source \<open>h\<close>, whose buffer lasts \<open>d\<close>.
  \<open>SendRealtimeInput p m\<close> is the send of \<open>m\<close> registered with \<open>then\<close> on the session
  promise \<open>p\<close>. \<open>SourceEnded h\<close> is not a call: it records that the \<open>ended\<close> event of
  source \<open>h\<close> was delivered to the listener installed by the message handler.
\<close>

record live =
  isConnected :: bool
  isStreaming :: bool
  isMicOn :: bool
  status :: AudioStatus
  error :: "string option"
  inputAudioContextRef :: "handle option"
  outputAudioContextRef :: "handle option"
  scriptProcessorRef :: "handle option"
  inputSourceRef :: "handle option"
  audioStreamRef :: "MediaStream option"
  isMicOnRef :: bool
  nextStartTimeRef :: real
  audioSourcesRef :: "handle list"
  outputGainNodeRef :: "handle option"
  sessionPromiseRef :: "handle option"
  videoIntervalRef :: "nat option"
  effects :: "effect list"

definition init :: live where
  "init = \<lparr> isConnected = False, isStreaming = False, isMicOn = True, status = Inactive,
            error = None, inputAudioContextRef = None, outputAudioContextRef = None,
            scriptProcessorRef = None, inputSourceRef = None, audioStreamRef = None,
            isMicOnRef = True, nextStartTimeRef = 0, audioSourcesRef = [],
            outputGainNodeRef = None, sessionPromiseRef = None, videoIntervalRef = None,
            effects = [] \<rparr>"

definition emit :: "effect list \<Rightarrow> live \<Rightarrow> live" where
  "emit es s = s\<lparr>effects := effects s @ es\<rparr>"

definition setStatus :: "AudioStatus \<Rightarrow> live \<Rightarrow> live" where
  "setStatus v s = emit [SetStatus v] (s\<lparr>status := v\<rparr>)"

text \<open>
  JavaScript truthiness of the values the hook tests: an absent or empty string is falsy,
  and so is the number 0 (the test on the timer id in \<open>disconnect\<close> and
  \<open>startVideoStream\<close> is written out there).
\<close>

definition truthy_string :: "string option \<Rightarrow> bool" where
  "truthy_string v = (case v of None \<Rightarrow> False | Some x \<Rightarrow> x \<noteq> [])"

text \<open>\<open>v || d\<close> for a string \<open>v\<close> that may be absent.\<close>

definition or_default :: "string option \<Rightarrow> string \<Rightarrow> string" where
  "or_default v d = (if truthy_string v then (case v of Some x \<Rightarrow> x | None \<Rightarrow> d) else d)"

subsection \<open>JavaScript numbers\<close>

text \<open>
  Times and durations are JavaScript numbers, that is IEEE 754 doubles; a finite double
  is represented by the real it denotes. Comparison and \<open>Math.max\<close> are exact on
  doubles, addition is not: \<open>a + b\<close> is the exact sum rounded to the nearest double,
  ties going to the even significand. \<open>round_double\<close> is that rounding: \<open>expo\<close> is
  the binary exponent of a double's binade (\<open>- 1022\<close> for the subnormal range), \<open>ulp\<close>
  the spacing of doubles there (52 fraction bits). Sums of \<open>2 ^ 1024\<close> and beyond, which
  a double renders as \<open>Infinity\<close>, are outside the representation: there the rounding
  goes on with larger exponents.
\<close>

definition pow2 :: "int \<Rightarrow> real" where
  "pow2 e = 2 powr real_of_int e"

definition round_half_even :: "real \<Rightarrow> int" where
  "round_half_even y = (let f = \<lfloor>y\<rfloor> in
     if y - of_int f < 1/2 then f
     else if 1/2 < y - of_int f then f + 1
     else if even f then f else f + 1)"

definition expo :: "real \<Rightarrow> int" where
  "expo x = max \<lfloor>log 2 x\<rfloor> (- 1022)"

definition ulp :: "real \<Rightarrow> real" where
  "ulp x = pow2 (expo x - 52)"

definition round_double :: "real \<Rightarrow> real" where
  "round_double x =
     (if x = 0 then 0 else of_int (round_half_even (x / ulp \<bar>x\<bar>)) * ulp \<bar>x\<bar>)"

definition double_add :: "real \<Rightarrow> real \<Rightarrow> real" where
  "double_add a b = round_double (a + b)"


subsection \<open>disconnect (lines 35-72)\<close>

definition release_processor :: "live \<Rightarrow> live" where
  "release_processor s = (case scriptProcessorRef s of None \<Rightarrow> s
     | Some h \<Rightarrow> (emit [NodeDisconnect h] s)\<lparr>scriptProcessorRef := None\<rparr>)"

definition release_input_source :: "live \<Rightarrow> live" where
  "release_input_source s = (case inputSourceRef s of None \<Rightarrow> s
     | Some h \<Rightarrow> (emit [NodeDisconnect h] s)\<lparr>inputSourceRef := None\<rparr>)"

definition release_stream :: "live \<Rightarrow> live" where
  "release_stream s = (case audioStreamRef s of None \<Rightarrow> s
     | Some st \<Rightarrow> (emit (map TrackStop (getTracks st)) s)\<lparr>audioStreamRef := None\<rparr>)"

definition release_input_context :: "live \<Rightarrow> live" where
  "release_input_context s = (case inputAudioContextRef s of None \<Rightarrow> s
     | Some h \<Rightarrow> (emit [ContextClose h] s)\<lparr>inputAudioContextRef := None\<rparr>)"

definition stop_sources :: "live \<Rightarrow> live" where
  "stop_sources s = (emit (map SourceStop (audioSourcesRef s)) s)\<lparr>audioSourcesRef := []\<rparr>"

definition release_output_context :: "live \<Rightarrow> live" where
  "release_output_context s = (case outputAudioContextRef s of None \<Rightarrow> s
     | Some h \<Rightarrow> (emit [ContextClose h] s)\<lparr>outputAudioContextRef := None\<rparr>)"

definition release_video_timer :: "live \<Rightarrow> live" where
  "release_video_timer s = (case videoIntervalRef s of None \<Rightarrow> s
     | Some n \<Rightarrow> if n = 0 then s
         else (emit [ClearInterval n] s)\<lparr>videoIntervalRef := None\<rparr>)"

definition reset_flags :: "live \<Rightarrow> live" where
  "reset_flags s =
     (setStatus Inactive (s\<lparr>isConnected := False, isStreaming := False\<rparr>))
       \<lparr>sessionPromiseRef := None\<rparr>"

definition disconnect :: "live \<Rightarrow> live" where
  "disconnect s =
     reset_flags (release_video_timer (release_output_context (stop_sources
       (release_input_context (release_stream (release_input_source
         (release_processor s)))))))"

subsection \<open>connect (lines 74-239)\<close>

text \<open>
  \<open>connect\<close> runs up to the microphone request, where it waits for the user's answer; the
  rest of its body runs when the request resolves (\<open>connect_granted\<close>) or rejects
  (\<open>connect_catch\<close>). What the environment supplies is a parameter: the API key, the
  handles of the objects created, and whether resuming a suspended context fails. The
  two waits on \<open>resume()\<close> are taken in one piece with the statements around them.
\<close>

record connect_env =
  api_key :: "string option"
  input_ctx :: handle
  output_ctx :: handle
  resume_error :: "string option"
  gain_node :: handle

definition connect_catch :: "string option \<Rightarrow> live \<Rightarrow> live" where
  "connect_catch msg s = disconnect (setStatus Inactive (s\<lparr>error := msg\<rparr>))"

definition connect :: "connect_env \<Rightarrow> live \<Rightarrow> live" where
  "connect env s =
     (let s1 = setStatus Listening ((disconnect s)\<lparr>error := None\<rparr>) in
      if \<not> truthy_string (api_key env)
      then connect_catch (Some ''API Key not found in environment variables.'') s1
      else
        let s2 = s1\<lparr>inputAudioContextRef := Some (input_ctx env),
                      outputAudioContextRef := Some (output_ctx env)\<rparr> in
        case resume_error env of
          Some m \<Rightarrow> connect_catch (Some m) s2
        | None \<Rightarrow> s2\<lparr>outputGainNodeRef := Some (gain_node env)\<rparr>)"

definition connect_granted :: "MediaStream \<Rightarrow> handle \<Rightarrow> live \<Rightarrow> live" where
  "connect_granted st p s =
     (let s1 = s\<lparr>audioStreamRef := Some st\<rparr>;
          s2 = emit (map (\<lambda>t. TrackEnabled t (isMicOnRef s1)) (getAudioTracks st)) s1
      in s2\<lparr>sessionPromiseRef := Some p\<rparr>)"

text \<open>The handler attached with \<open>sessionPromise.catch\<close> (lines 224-231).\<close>

definition session_rejected :: "string option \<Rightarrow> live \<Rightarrow> live" where
  "session_rejected msg s =
     disconnect (setStatus Inactive
       (s\<lparr>error := Some (or_default msg ''Connection failed''),
          isConnected := False, isStreaming := False\<rparr>))"

subsection \<open>The session callbacks (lines 127-217)\<close>

definition onopen :: "handle \<Rightarrow> handle \<Rightarrow> live \<Rightarrow> live" where
  "onopen src proc s =
     (let s1 = s\<lparr>isConnected := True, isStreaming := True\<rparr> in
      if inputAudioContextRef s1 \<noteq> None \<and> audioStreamRef s1 \<noteq> None
      then s1\<lparr>inputSourceRef := Some src, scriptProcessorRef := Some proc\<rparr>
      else s1)"

definition onaudioprocess :: "real list \<Rightarrow> live \<Rightarrow> live" where
  "onaudioprocess inputData s =
     (if \<not> isMicOnRef s then s
      else
        let pcmBlob = AudioBlobOf inputData in
        case sessionPromiseRef s of
          None \<Rightarrow> s
        | Some p \<Rightarrow> emit [SendRealtimeInput p pcmBlob] s)"

text \<open>
  A server message, as far as the handler reads it: the base64 audio of the first part of
  the model turn (absent when any link of the optional chain is) and the interruption flag.
\<close>

record LiveServerMessage =
  inlineData :: "string option"
  interrupted :: bool

text \<open>
  The handler is asynchronous: it runs to the \<open>await\<close> on the decoding, and the rest runs
  when the decoding has settled. \<open>audio_prelude\<close> is lines 161-166; its first component
  tells whether the audio branch was entered. \<open>now\<close> is \<open>ctx.currentTime\<close> as read on
  line 166.
\<close>

definition audio_prelude :: "LiveServerMessage \<Rightarrow> real \<Rightarrow> live \<Rightarrow> bool \<times> live" where
  "audio_prelude m now s =
     (if truthy_string (inlineData m) \<and> outputAudioContextRef s \<noteq> None
           \<and> outputGainNodeRef s \<noteq> None
      then (True, (setStatus Speaking s)
                    \<lparr>nextStartTimeRef := max (nextStartTimeRef s) now\<rparr>)
      else (False, s))"

text \<open>
  The \<open>try\<close> block (lines 168-192). Decoding, creating the source and wiring it are calls
  into utils/audio and the browser; their outcome is a parameter: either one of them
  throws, which the \<open>catch\<close> only logs, or they yield a source \<open>h\<close> with a buffer of
  duration \<open>d\<close>, which is then started, accounted for in the cursor and added to the
  tracking set. The set holds each source once.
\<close>

datatype decode_outcome = DecodeThrows | Decoded handle real

definition add_source :: "handle \<Rightarrow> handle list \<Rightarrow> handle list" where
  "add_source h xs = (if h \<in> set xs then xs else xs @ [h])"

definition audio_try :: "decode_outcome \<Rightarrow> live \<Rightarrow> live" where
  "audio_try out s = (case out of
       DecodeThrows \<Rightarrow> s
     | Decoded h d \<Rightarrow>
         (emit [SourceStart h (nextStartTimeRef s) d] s)
           \<lparr>nextStartTimeRef := double_add (nextStartTimeRef s) d,
            audioSourcesRef := add_source h (audioSourcesRef s)\<rparr>)"

text \<open>Lines 195-202.\<close>

definition interruption :: "LiveServerMessage \<Rightarrow> live \<Rightarrow> live" where
  "interruption m s =
     (if interrupted m
      then setStatus Listening ((stop_sources s)\<lparr>nextStartTimeRef := 0\<rparr>)
      else s)"

definition onmessage_arrive :: "LiveServerMessage \<Rightarrow> real \<Rightarrow> live \<Rightarrow> live" where
  "onmessage_arrive m now s =
     (case audio_prelude m now s of
        (True, s') \<Rightarrow> s'
      | (False, s') \<Rightarrow> interruption m s')"

definition onmessage_resume :: "LiveServerMessage \<Rightarrow> decode_outcome \<Rightarrow> live \<Rightarrow> live" where
  "onmessage_resume m out s = interruption m (audio_try out s)"

text \<open>The whole handler, when nothing else runs while it waits for the decoding.\<close>

definition onmessage :: "LiveServerMessage \<Rightarrow> real \<Rightarrow> decode_outcome \<Rightarrow> live \<Rightarrow> live" where
  "onmessage m now out s =
     (case audio_prelude m now s of
        (True, s') \<Rightarrow> onmessage_resume m out s'
      | (False, s') \<Rightarrow> interruption m s')"

text \<open>The listener for \<open>ended\<close> that the handler installs on each source (lines 180-185).\<close>

definition on_ended :: "handle \<Rightarrow> live \<Rightarrow> live" where
  "on_ended h s =
     (let s1 = (emit [SourceEnded h] s)\<lparr>audioSourcesRef := removeAll h (audioSourcesRef s)\<rparr>
      in if length (audioSourcesRef s1) = 0 then setStatus Listening s1 else s1)"

definition onclose :: "live \<Rightarrow> live" where
  "onclose s = setStatus Inactive (s\<lparr>isConnected := False, isStreaming := False\<rparr>)"

definition onerror :: "string option \<Rightarrow> live \<Rightarrow> live" where
  "onerror msg s =
     disconnect (s\<lparr>error := Some (or_default msg ''Network error occurred''),
                   isConnected := False, isStreaming := False\<rparr>)"

subsection \<open>toggleMic and startVideoStream (lines 241-284)\<close>

definition toggleMic :: "live \<Rightarrow> live" where
  "toggleMic s =
     (let newState = \<not> isMicOnRef s;
          s1 = s\<lparr>isMicOnRef := newState, isMicOn := newState\<rparr>
      in case audioStreamRef s1 of
           None \<Rightarrow> s1
         | Some st \<Rightarrow> emit (map (\<lambda>t. TrackEnabled t newState) (getAudioTracks st)) s1)"

text \<open>\<open>timer\<close> is the id \<open>window.setInterval\<close> returns.\<close>

definition startVideoStream :: "nat \<Rightarrow> live \<Rightarrow> live" where
  "startVideoStream timer s =
     (let s1 = (case videoIntervalRef s of
                  None \<Rightarrow> s
                | Some n \<Rightarrow> if n = 0 then s else emit [ClearInterval n] s)
      in (emit [SetInterval timer] s1)\<lparr>videoIntervalRef := Some timer\<rparr>)"

text \<open>
  The timer's callback changes nothing by itself; when a snapshot has been encoded
  (the callback of \<open>toBlob\<close>, lines 270-280) it is sent on the session promise, if any.
\<close>

definition frame_encoded :: "string \<Rightarrow> live \<Rightarrow> live" where
  "frame_encoded base64Data s = (case sessionPromiseRef s of
       None \<Rightarrow> s
     | Some p \<Rightarrow> emit [SendRealtimeInput p (JpegImage base64Data)] s)"

subsection \<open>Executions\<close>

text \<open>
  Everything that can happen to a mounted hook: calls of the functions it returns, and the
  callbacks the browser and the session invoke. The callbacks are allowed in any order and
  at any time, which includes every order the browser can produce.
\<close>

datatype event =
    Connect connect_env
  | MicGranted MediaStream handle
  | MicDenied "string option"
  | SessionRejected "string option"
  | Disconnect
  | OnOpen handle handle
  | AudioProcess "real list"
  | MessageArrive LiveServerMessage real
  | MessageResume LiveServerMessage decode_outcome
  | Ended handle
  | OnClose
  | OnError "string option"
  | ToggleMic
  | StartVideoStream nat
  | FrameEncoded string

fun step :: "event \<Rightarrow> live \<Rightarrow> live" where
  "step (Connect env) s = connect env s"
| "step (MicGranted st p) s = connect_granted st p s"
| "step (MicDenied msg) s = connect_catch msg s"
| "step (SessionRejected msg) s = session_rejected msg s"
| "step Disconnect s = disconnect s"
| "step (OnOpen src proc) s = onopen src proc s"
| "step (AudioProcess f) s = onaudioprocess f s"
| "step (MessageArrive m now) s = onmessage_arrive m now s"
| "step (MessageResume m out) s = onmessage_resume m out s"
| "step (Ended h) s = on_ended h s"
| "step OnClose s = onclose s"
| "step (OnError msg) s = onerror msg s"
| "step ToggleMic s = toggleMic s"
| "step (StartVideoStream n) s = startVideoStream n s"
| "step (FrameEncoded d) s = frame_encoded d s"

fun run :: "event list \<Rightarrow> live \<Rightarrow> live" where
  "run [] s = s"
| "run (e # es) s = run es (step e s)"

subsection \<open>What an execution did, read off its effects\<close>





text \<open>
  The sources still due to play after a sequence of effects: started, and since then
  neither stopped nor ended.
\<close>

fun play_step :: "handle list \<Rightarrow> effect \<Rightarrow> handle list" where
  "play_step acc (SourceStart h t d) = add_source h acc"
| "play_step acc (SourceStop h) = removeAll h acc"
| "play_step acc (SourceEnded h) = removeAll h acc"
| "play_step acc e = acc"

definition still_due :: "effect list \<Rightarrow> handle list" where
  "still_due es = foldl play_step [] es"



text \<open>
  The effects of one call of \<open>disconnect\<close>, in the order of its statements, and the
  part of the state that makes up the connection (everything but the two microphone
  flags and the effects).
\<close>

definition opt_effect :: "('a \<Rightarrow> effect list) \<Rightarrow> 'a option \<Rightarrow> effect list" where
  "opt_effect f v = (case v of None \<Rightarrow> [] | Some x \<Rightarrow> f x)"

definition disconnect_effects :: "live \<Rightarrow> effect list" where
  "disconnect_effects s =
     opt_effect (\<lambda>h. [NodeDisconnect h]) (scriptProcessorRef s) @
     opt_effect (\<lambda>h. [NodeDisconnect h]) (inputSourceRef s) @
     opt_effect (\<lambda>st. map TrackStop (getTracks st)) (audioStreamRef s) @
     opt_effect (\<lambda>h. [ContextClose h]) (inputAudioContextRef s) @
     map SourceStop (audioSourcesRef s) @
     opt_effect (\<lambda>h. [ContextClose h]) (outputAudioContextRef s) @
     opt_effect (\<lambda>n. if n = 0 then [] else [ClearInterval n]) (videoIntervalRef s) @
     [SetStatus Inactive]"

definition connection_state ::
  "live \<Rightarrow> bool \<times> bool \<times> AudioStatus \<times> string option \<times> handle option \<times> handle option
     \<times> handle option \<times> handle option \<times> handle option \<times> handle option
     \<times> MediaStream option \<times> nat option \<times> handle list \<times> real" where
  "connection_state s =
     (isConnected s, isStreaming s, status s, live.error s, sessionPromiseRef s,
      inputAudioContextRef s, outputAudioContextRef s, outputGainNodeRef s,
      scriptProcessorRef s, inputSourceRef s, audioStreamRef s, videoIntervalRef s,
      audioSourcesRef s, nextStartTimeRef s)"


text \<open>Every source still due to play is in the tracking set.\<close>

definition due_tracked :: "live \<Rightarrow> bool" where
  "due_tracked s = (set (still_due (effects s)) \<subseteq> set (audioSourcesRef s))"

section \<open>The chat hook (useGeminiChat, src/unnamed/part\_000)\<close>

datatype ChatModelType = Fast | Smart | Thinking

datatype role = UserRole | ModelRole

record Message =
  role :: role
  msg_text :: string
  isThinking :: "bool option"

text \<open>
  \<open>isThinking\<close> is an optional field: \<open>None\<close> where the entry is built without it.
  Besides the three pieces of React state, \<open>requests\<close> lists the calls of
  \<open>generateContent\<close> made so far.
\<close>

record request =
  model :: string
  contents_text :: string
  thinkingBudget :: "nat option"

record chat =
  messages :: "Message list"
  isLoading :: bool
  error :: "string option"
  requests :: "request list"

definition chat_init :: chat where
  "chat_init = \<lparr> messages = [], isLoading = False, error = None, requests = [] \<rparr>"

definition select_model :: "ChatModelType \<Rightarrow> string \<times> nat option" where
  "select_model type = (case type of
       Fast \<Rightarrow> (''gemini-2.5-flash-lite'', None)
     | Smart \<Rightarrow> (''gemini-3-pro-preview'', None)
     | Thinking \<Rightarrow> (''gemini-3-pro-preview'', Some 32768))"

text \<open>The \<open>catch\<close> and \<open>finally\<close> blocks (lines 67-73), for an error with message \<open>msg\<close>.\<close>

definition sendMessage_catch :: "string option \<Rightarrow> chat \<Rightarrow> chat" where
  "sendMessage_catch msg s =
     s\<lparr>error := Some (or_default msg ''Failed to generate response''),
       messages := messages s @
         [\<lparr>role = ModelRole, msg_text = ''Error: Could not generate response.'',
           isThinking = None\<rparr>],
       isLoading := False\<rparr>"

text \<open>
  Lines 23-57: up to the \<open>await\<close> on \<open>generateContent\<close>. Without an API key
  \<open>getClient\<close> throws inside the \<open>try\<close> and the call is over at once.
\<close>

definition sendMessage_start :: "string option \<Rightarrow> string \<Rightarrow> ChatModelType \<Rightarrow> chat \<Rightarrow> chat" where
  "sendMessage_start key txt type s =
     (let s1 = s\<lparr>isLoading := True, error := None,
                  messages := messages s @
                    [\<lparr>role = UserRole, msg_text = txt, isThinking = None\<rparr>]\<rparr>
      in if \<not> truthy_string key then sendMessage_catch (Some ''API Key not found'') s1
         else s1\<lparr>requests := requests s1 @
                 [\<lparr>model = fst (select_model type), contents_text = txt,
                   thinkingBudget = snd (select_model type)\<rparr>]\<rparr>)"

text \<open>
  The request settles: it rejects with an error, or it resolves with a response whose
  \<open>text\<close> may be absent. Lines 59-73.
\<close>

datatype generate_outcome = Rejected "string option" | Replied "string option"

definition sendMessage_settle :: "ChatModelType \<Rightarrow> generate_outcome \<Rightarrow> chat \<Rightarrow> chat" where
  "sendMessage_settle type out s = (case out of
       Rejected msg \<Rightarrow> sendMessage_catch msg s
     | Replied responseText \<Rightarrow>
         s\<lparr>messages := messages s @
             [\<lparr>role = ModelRole,
               msg_text = or_default responseText ''No response generated.'',
               isThinking = Some (type = Thinking)\<rparr>],
           isLoading := False\<rparr>)"

text \<open>One call, with nothing else touching the transcript while the request is out.\<close>

definition sendMessage ::
  "string option \<Rightarrow> string \<Rightarrow> ChatModelType \<Rightarrow> generate_outcome \<Rightarrow> chat \<Rightarrow> chat" where
  "sendMessage key txt type out s =
     (if \<not> truthy_string key then sendMessage_start key txt type s
      else sendMessage_settle type out (sendMessage_start key txt type s))"

definition clearMessages :: "chat \<Rightarrow> chat" where
  "clearMessages s = s\<lparr>messages := []\<rparr>"

section \<open>The identity provider (AuthProvider, src/unnamed/part\_001)\<close>

text \<open>
  Of a user object the provider reads \<open>isAnonymous\<close> and \<open>email\<close>. The module-level
  \<open>auth\<close> is undefined when Firebase failed to initialise (utils/firebase); it is the
  boolean parameter \<open>auth\<close> below. \<open>calls\<close> lists the calls made to the external
  identity provider.
\<close>

record User =
  uid :: string
  email :: "string option"
  displayName :: "string option"
  isAnonymous :: bool
  providerId :: string

datatype provider_call = FirebaseSignOut

record auth_state =
  user :: "User option"
  loading :: bool
  calls :: "provider_call list"

definition auth_init :: auth_state where
  "auth_init = \<lparr> user = None, loading = True, calls = [] \<rparr>"

text \<open>The test on line 37; with no user the optional chains give \<open>undefined\<close>.\<close>

definition is_guest :: "User option \<Rightarrow> bool" where
  "is_guest v = (case v of None \<Rightarrow> False
     | Some u \<Rightarrow> isAnonymous u \<and> email u = Some ''guest@preview.app'')"

text \<open>
  \<open>signOut\<close> returns a promise; the first component is the error it rejects with, if
  any. \<open>failure\<close> is the error of the provider's sign-out, if that fails.
\<close>

definition signOut :: "bool \<Rightarrow> string option \<Rightarrow> auth_state \<Rightarrow> string option \<times> auth_state" where
  "signOut auth failure s =
     (if is_guest (user s) then (None, s\<lparr>user := None\<rparr>)
      else if auth then
        (let s1 = s\<lparr>calls := calls s @ [FirebaseSignOut]\<rparr> in
         case failure of
           Some e \<Rightarrow> (Some e, s1)
         | None \<Rightarrow> (None, s1\<lparr>user := None\<rparr>))
      else (None, s\<lparr>user := None\<rparr>))"

text \<open>\<open>stamp\<close> is \<open>Date.now()\<close> as the string it becomes in the concatenation.\<close>

definition continueAsGuest :: "string \<Rightarrow> auth_state \<Rightarrow> auth_state" where
  "continueAsGuest stamp s =
     s\<lparr>user := Some \<lparr>uid = ''guest-'' @ stamp, email = Some ''guest@preview.app'',
                      displayName = Some ''Guest User'', isAnonymous = True,
                      providerId = ''guest''\<rparr>\<rparr>"

text \<open>
  The effect on mount (lines 22-34): without \<open>auth\<close> it only clears \<open>loading\<close>, otherwise
  it subscribes, and the provider then reports the current user whenever it changes.
\<close>

definition on_mount :: "bool \<Rightarrow> auth_state \<Rightarrow> auth_state" where
  "on_mount auth s = (if \<not> auth then s\<lparr>loading := False\<rparr> else s)"

definition on_auth_state_changed :: "User option \<Rightarrow> auth_state \<Rightarrow> auth_state" where
  "on_auth_state_changed currentUser s = s\<lparr>user := currentUser, loading := False\<rparr>"

datatype auth_event =
    Mount
  | AuthStateChanged "User option"
  | ContinueAsGuest string
  | SignOut "string option"

fun auth_step :: "bool \<Rightarrow> auth_event \<Rightarrow> auth_state \<Rightarrow> auth_state" where
  "auth_step auth Mount s = on_mount auth s"
| "auth_step auth (AuthStateChanged u) s = (if auth then on_auth_state_changed u s else s)"
| "auth_step auth (ContinueAsGuest stamp) s = continueAsGuest stamp s"
| "auth_step auth (SignOut failure) s = snd (signOut auth failure s)"

fun auth_run :: "bool \<Rightarrow> auth_event list \<Rightarrow> auth_state \<Rightarrow> auth_state" where
  "auth_run auth [] s = s"
| "auth_run auth (e # es) s = auth_run auth es (auth_step auth e s)"

section \<open>Starting the camera or screen stream (startMedia, src/App.tsx)\<close>

text \<open>
  The part of the App component that owns the video stream: the stream ref, the request
  counter, and the state \<open>startMedia\<close> and \<open>handleDisconnect\<close> set. The component uses the
  live hook, whose state is the field \<open>hook\<close>. \<open>media_effects\<close> lists the calls the
  component makes on tracks. The capabilities read off the new track are a parameter;
  zoom and focus state, the constraints passed to the device request and screen
  recording are left out.
\<close>

datatype LiveMode = SCREEN | CAMERA | NONE

record MediaCapabilities =
  zoom :: "(real \<times> real \<times> real) option"
  focus :: "(real \<times> real \<times> real \<times> string list) option"
  torch :: "bool option"

record app =
  hook :: live
  liveMode :: LiveMode
  isMediaLoading :: bool
  mediaCapabilities :: "MediaCapabilities option"
  isTorchOn :: bool
  streamRef :: "MediaStream option"
  startMediaRequestRef :: nat
  media_effects :: "effect list"

definition app_init :: app where
  "app_init = \<lparr> hook = init, liveMode = NONE, isMediaLoading = False,
                mediaCapabilities = None, isTorchOn = False, streamRef = None,
                startMediaRequestRef = 0, media_effects = [] \<rparr>"

definition stop_tracks :: "MediaStream \<Rightarrow> app \<Rightarrow> app" where
  "stop_tracks st s = s\<lparr>media_effects := media_effects s @ map TrackStop (getTracks st)\<rparr>"

text \<open>
  Lines 260-266: the call takes the next request number and then waits for the device.
  The first component is \<open>requestId\<close>.
\<close>

definition startMedia_begin :: "LiveMode \<Rightarrow> app \<Rightarrow> nat \<times> app" where
  "startMedia_begin selectedMode s =
     (let requestId = startMediaRequestRef s + 1 in
      (requestId, s\<lparr>startMediaRequestRef := requestId, isMediaLoading := True,
                     mediaCapabilities := None, isTorchOn := False\<rparr>))"

text \<open>The \<open>finally\<close> block (lines 359-363).\<close>

definition startMedia_finally :: "nat \<Rightarrow> app \<Rightarrow> app" where
  "startMedia_finally requestId s =
     (if requestId = startMediaRequestRef s then s\<lparr>isMediaLoading := False\<rparr> else s)"

text \<open>
  Lines 292-341, run when the device request resolves with \<open>stream\<close>. The first component
  tells whether the call now waits for \<open>play()\<close>. A stream without a video track makes
  line 303 throw, which the \<open>catch\<close> logs.
\<close>

definition startMedia_acquired ::
  "nat \<Rightarrow> LiveMode \<Rightarrow> MediaStream \<Rightarrow> MediaCapabilities \<Rightarrow> bool \<Rightarrow> app \<Rightarrow> bool \<times> app" where
  "startMedia_acquired requestId selectedMode stream newCapabilities hasVideoElement s =
     (if requestId \<noteq> startMediaRequestRef s
      then (False, startMedia_finally requestId (stop_tracks stream s))
      else
        let s1 = (case streamRef s of None \<Rightarrow> s | Some old \<Rightarrow> stop_tracks old s) in
        if getVideoTracks stream = [] then (False, startMedia_finally requestId s1)
        else
          let s2 = s1\<lparr>mediaCapabilities := Some newCapabilities, streamRef := Some stream\<rparr>
          in if hasVideoElement then (True, s2)
             else (False, startMedia_finally requestId (s2\<lparr>liveMode := selectedMode\<rparr>)))"

text \<open>Lines 343-354 and the \<open>finally\<close> block, run when \<open>play()\<close> has settled.\<close>

definition startMedia_played :: "nat \<Rightarrow> LiveMode \<Rightarrow> bool \<Rightarrow> nat \<Rightarrow> app \<Rightarrow> app" where
  "startMedia_played requestId selectedMode played timer s =
     (let s1 = (if played \<and> requestId = startMediaRequestRef s
                then s\<lparr>hook := startVideoStream timer (hook s)\<rparr> else s)
      in startMedia_finally requestId (s1\<lparr>liveMode := selectedMode\<rparr>))"

text \<open>The device request rejects: the \<open>catch\<close> returns or logs, then the \<open>finally\<close> block.\<close>

definition startMedia_failed :: "nat \<Rightarrow> app \<Rightarrow> app" where
  "startMedia_failed requestId s = startMedia_finally requestId s"

definition handleDisconnect :: "app \<Rightarrow> app" where
  "handleDisconnect s =
     (let s1 = s\<lparr>hook := disconnect (hook s)\<rparr>;
          s2 = (case streamRef s1 of None \<Rightarrow> s1
                | Some st \<Rightarrow> (stop_tracks st s1)\<lparr>streamRef := None\<rparr>)
      in s2\<lparr>liveMode := NONE, mediaCapabilities := None, isTorchOn := False\<rparr>)"

text \<open>The \<open>onended\<close> handler of a stream's video track (lines 352-354).\<close>

definition track_ended :: "MediaStream \<Rightarrow> app \<Rightarrow> app" where
  "track_ended stream s = (case streamRef s of
       None \<Rightarrow> s
     | Some cur \<Rightarrow> if stream_id cur = stream_id stream then handleDisconnect s else s)"

datatype app_event =
    StartMedia LiveMode
  | Acquired nat LiveMode MediaStream MediaCapabilities bool
  | AcquireFailed nat
  | Played nat LiveMode bool nat
  | HandleDisconnect
  | TrackEnded MediaStream
  | Hook event

fun app_step :: "app_event \<Rightarrow> app \<Rightarrow> app" where
  "app_step (StartMedia m) s = snd (startMedia_begin m s)"
| "app_step (Acquired r m st c v) s = snd (startMedia_acquired r m st c v s)"
| "app_step (AcquireFailed r) s = startMedia_failed r s"
| "app_step (Played r m ok timer) s = startMedia_played r m ok timer s"
| "app_step HandleDisconnect s = handleDisconnect s"
| "app_step (TrackEnded st) s = track_ended st s"
| "app_step (Hook e) s = s\<lparr>hook := step e (hook s)\<rparr>"

fun app_run :: "app_event list \<Rightarrow> app \<Rightarrow> app" where
  "app_run [] s = s"
| "app_run (e # es) s = app_run es (app_step e s)"

fun is_start :: "app_event \<Rightarrow> bool" where
  "is_start (StartMedia m) = True"
| "is_start e = False"

section \<open>Rounding to a double\<close>


































lemma exact_sum_01_07:
  "(7205759403792793 / 2 ^ 53 :: real) < 3602879701896397 / 2 ^ 55 + 3152519739159347 / 2 ^ 52"
  by simp

section \<open>Properties of the live session hook\<close>

subsection \<open>disconnect as one update\<close>

lemma release_processor_eq:
  "release_processor s = s\<lparr>scriptProcessorRef := None,
     effects := effects s @ opt_effect (\<lambda>h. [NodeDisconnect h]) (scriptProcessorRef s)\<rparr>"
  by (cases s) (simp add: release_processor_def emit_def opt_effect_def split: option.splits)

lemma release_input_source_eq:
  "release_input_source s = s\<lparr>inputSourceRef := None,
     effects := effects s @ opt_effect (\<lambda>h. [NodeDisconnect h]) (inputSourceRef s)\<rparr>"
  by (cases s) (simp add: release_input_source_def emit_def opt_effect_def split: option.splits)

lemma release_stream_eq:
  "release_stream s = s\<lparr>audioStreamRef := None,
     effects := effects s @ opt_effect (\<lambda>st. map TrackStop (getTracks st)) (audioStreamRef s)\<rparr>"
  by (cases s) (simp add: release_stream_def emit_def opt_effect_def split: option.splits)

lemma release_input_context_eq:
  "release_input_context s = s\<lparr>inputAudioContextRef := None,
     effects := effects s @ opt_effect (\<lambda>h. [ContextClose h]) (inputAudioContextRef s)\<rparr>"
  by (cases s) (simp add: release_input_context_def emit_def opt_effect_def split: option.splits)

lemma release_output_context_eq:
  "release_output_context s = s\<lparr>outputAudioContextRef := None,
     effects := effects s @ opt_effect (\<lambda>h. [ContextClose h]) (outputAudioContextRef s)\<rparr>"
  by (cases s) (simp add: release_output_context_def emit_def opt_effect_def split: option.splits)

lemma release_video_timer_eq:
  "release_video_timer s = s\<lparr>
     videoIntervalRef := (if videoIntervalRef s = Some 0 then Some 0 else None),
     effects := effects s @
       opt_effect (\<lambda>n. if n = 0 then [] else [ClearInterval n]) (videoIntervalRef s)\<rparr>"
  by (cases s) (simp add: release_video_timer_def emit_def opt_effect_def split: option.splits)

lemmas release_eqs = release_processor_eq release_input_source_eq release_stream_eq
  release_input_context_eq release_output_context_eq release_video_timer_eq

lemma disconnect_eq:
  "disconnect s = s\<lparr>isConnected := False, isStreaming := False, status := Inactive,
      inputAudioContextRef := None, outputAudioContextRef := None,
      scriptProcessorRef := None, inputSourceRef := None, audioStreamRef := None,
      audioSourcesRef := [], sessionPromiseRef := None,
      videoIntervalRef := (if videoIntervalRef s = Some 0 then Some 0 else None),
      effects := effects s @ disconnect_effects s\<rparr>"
  by (simp add: disconnect_def disconnect_effects_def release_eqs stop_sources_def
        reset_flags_def setStatus_def emit_def)

lemmas op_defs = connect_def connect_catch_def connect_granted_def session_rejected_def
  onopen_def onaudioprocess_def audio_prelude_def audio_try_def interruption_def
  onmessage_arrive_def onmessage_resume_def onmessage_def on_ended_def onclose_def
  onerror_def toggleMic_def startVideoStream_def frame_encoded_def
  stop_sources_def setStatus_def emit_def Let_def

subsection \<open>The two microphone flags agree\<close>

lemma step_mic: "isMicOn s = isMicOnRef s \<Longrightarrow> isMicOn (step e s) = isMicOnRef (step e s)"
  by (cases e) (simp_all add: op_defs disconnect_eq split: option.splits decode_outcome.splits)

lemma run_mic: "isMicOn s = isMicOnRef s \<Longrightarrow> isMicOn (run evs s) = isMicOnRef (run evs s)"
  by (induction evs arbitrary: s) (simp_all add: step_mic)

lemma init_mic: "isMicOn (run evs init) = isMicOnRef (run evs init)"
  by (rule run_mic) (simp add: init_def)

subsection \<open>Status values\<close>

lemma status_disconnect_effects: "SetStatus Processing \<notin> set (disconnect_effects s)"
  by (auto simp: disconnect_effects_def opt_effect_def split: option.splits)

lemma step_status:
  "status s \<noteq> Processing \<and> SetStatus Processing \<notin> set (effects s) \<Longrightarrow>
   status (step e s) \<noteq> Processing \<and> SetStatus Processing \<notin> set (effects (step e s))"
  by (cases e) (auto simp add: op_defs disconnect_eq status_disconnect_effects
        split: option.splits decode_outcome.splits)

lemma run_status:
  "status s \<noteq> Processing \<and> SetStatus Processing \<notin> set (effects s) \<Longrightarrow>
   status (run evs s) \<noteq> Processing \<and> SetStatus Processing \<notin> set (effects (run evs s))"
proof (induction evs arbitrary: s)
  case Nil
  then show ?case by simp
next
  case (Cons e evs)
  from Cons.prems have "status (step e s) \<noteq> Processing
      \<and> SetStatus Processing \<notin> set (effects (step e s))"
    by (rule step_status)
  then show ?case using Cons.IH by simp
qed

subsection \<open>The playback schedule\<close>
























subsection \<open>Sources still due to play\<close>

lemma foldl_play_stop: "set (foldl play_step acc (map SourceStop hs)) = set acc - set hs"
  by (induction hs arbitrary: acc) auto

lemma foldl_play_no_start:
  "(\<forall>e\<in>set es. \<forall>h t d. e \<noteq> SourceStart h t d) \<Longrightarrow> set (foldl play_step acc es) \<subseteq> set acc"
proof (induction es arbitrary: acc)
  case Nil
  then show ?case by simp
next
  case (Cons e es)
  have "set (play_step acc e) \<subseteq> set acc"
    using Cons.prems by (cases e) auto
  moreover have "set (foldl play_step (play_step acc e) es) \<subseteq> set (play_step acc e)"
    using Cons.prems by (intro Cons.IH) simp
  ultimately show ?case by auto
qed

lemma foldl_play_TrackEnabled: "foldl play_step acc (map (\<lambda>t. TrackEnabled t b) hs) = acc"
  by (induction hs arbitrary: acc) simp_all

lemma foldl_play_disconnect:
  assumes "set acc \<subseteq> set (audioSourcesRef s)"
  shows "foldl play_step acc (disconnect_effects s) = []"
proof -
  define before where "before =
     opt_effect (\<lambda>h. [NodeDisconnect h]) (scriptProcessorRef s) @
     opt_effect (\<lambda>h. [NodeDisconnect h]) (inputSourceRef s) @
     opt_effect (\<lambda>st. map TrackStop (getTracks st)) (audioStreamRef s) @
     opt_effect (\<lambda>h. [ContextClose h]) (inputAudioContextRef s)"
  define after where "after =
     opt_effect (\<lambda>h. [ContextClose h]) (outputAudioContextRef s) @
     opt_effect (\<lambda>n. if n = 0 then [] else [ClearInterval n]) (videoIntervalRef s) @
     [SetStatus Inactive]"
  have split: "disconnect_effects s = before @ map SourceStop (audioSourcesRef s) @ after"
    by (simp add: disconnect_effects_def before_def after_def)
  define a1 where "a1 = foldl play_step acc before"
  define a2 where "a2 = foldl play_step a1 (map SourceStop (audioSourcesRef s))"
  have "set a1 \<subseteq> set acc"
    unfolding a1_def
    by (rule foldl_play_no_start) (auto simp: before_def opt_effect_def split: option.splits)
  then have "set a2 = {}"
    using assms by (auto simp: a2_def foldl_play_stop)
  moreover have "set (foldl play_step a2 after) \<subseteq> set a2"
    by (rule foldl_play_no_start) (auto simp: after_def opt_effect_def split: option.splits)
  ultimately have "set (foldl play_step a2 after) = {}" by simp
  then show ?thesis by (simp add: split a1_def a2_def)
qed

lemma due_disconnect:
  "due_tracked s \<Longrightarrow> due_tracked (disconnect s)"
  by (simp add: due_tracked_def still_due_def disconnect_eq foldl_play_disconnect)

lemma due_update:
  "audioSourcesRef s' = audioSourcesRef s \<Longrightarrow> effects s' = effects s \<Longrightarrow>
   due_tracked s \<Longrightarrow> due_tracked s'"
  by (simp add: due_tracked_def)

lemma due_emit:
  "due_tracked s \<Longrightarrow> (\<forall>e\<in>set es. \<forall>h t d. e \<noteq> SourceStart h t d)
   \<Longrightarrow> audioSourcesRef s' = audioSourcesRef s \<Longrightarrow> effects s' = effects s @ es
   \<Longrightarrow> due_tracked s'"
  using foldl_play_no_start [of es "still_due (effects s)"]
  by (auto simp: due_tracked_def still_due_def)

lemma due_interruption: "due_tracked s \<Longrightarrow> due_tracked (interruption m s)"
  by (auto simp: due_tracked_def still_due_def interruption_def stop_sources_def
        setStatus_def emit_def foldl_play_stop)

lemma still_due_interruption:
  "due_tracked s \<Longrightarrow> interrupted m \<Longrightarrow> still_due (effects (interruption m s)) = []"
proof -
  assume a: "due_tracked s" "interrupted m"
  then have "set (still_due (effects (interruption m s))) = {}"
    by (auto simp: due_tracked_def still_due_def interruption_def stop_sources_def
          setStatus_def emit_def foldl_play_stop)
  then show ?thesis by simp
qed

lemma due_audio_try: "due_tracked s \<Longrightarrow> due_tracked (audio_try out s)"
  by (cases out) (auto simp: due_tracked_def still_due_def audio_try_def emit_def add_source_def)

lemma due_prelude: "due_tracked s \<Longrightarrow> due_tracked (snd (audio_prelude m now s))"
  by (simp add: due_tracked_def still_due_def audio_prelude_def setStatus_def emit_def)

lemma due_setStatus: "due_tracked s \<Longrightarrow> due_tracked (setStatus v s)"
  by (simp add: due_tracked_def still_due_def setStatus_def emit_def)

lemma step_due: "due_tracked s \<Longrightarrow> due_tracked (step e s)"
proof (cases e)
  case (Connect env)
  assume "due_tracked s"
  then have d: "due_tracked (disconnect s)" by (rule due_disconnect)
  have "due_tracked (setStatus Listening ((disconnect s)\<lparr>live.error := None\<rparr>))"
    by (rule due_setStatus) (rule due_update [OF _ _ d], simp_all)
  note s1 = this
  show ?thesis
    unfolding Connect step.simps connect_def Let_def connect_catch_def
    by (auto split: option.splits intro!: due_disconnect due_setStatus
          intro: due_update [OF _ _ s1])
next
  case (MicGranted st p)
  assume "due_tracked s"
  then show ?thesis
    by (simp add: MicGranted connect_granted_def due_tracked_def still_due_def emit_def
          Let_def foldl_play_TrackEnabled)
next
  case (MicDenied msg)
  assume d: "due_tracked s"
  show ?thesis
    unfolding MicDenied step.simps connect_catch_def
    by (intro due_disconnect due_setStatus due_update [OF _ _ d]) simp_all
next
  case (SessionRejected msg)
  assume d: "due_tracked s"
  show ?thesis
    unfolding SessionRejected step.simps session_rejected_def
    by (intro due_disconnect due_setStatus due_update [OF _ _ d]) simp_all
next
  case Disconnect
  assume "due_tracked s"
  then show ?thesis by (simp add: Disconnect due_disconnect)
next
  case (OnOpen src proc)
  assume "due_tracked s"
  then show ?thesis by (simp add: OnOpen onopen_def due_tracked_def Let_def)
next
  case (AudioProcess f)
  assume "due_tracked s"
  then show ?thesis
    by (simp add: AudioProcess onaudioprocess_def due_tracked_def still_due_def emit_def
          Let_def split: option.splits)
next
  case (MessageArrive m now)
  assume "due_tracked s"
  then show ?thesis
    using due_prelude [of s m now] due_interruption [of "snd (audio_prelude m now s)" m]
    by (auto simp add: MessageArrive onmessage_arrive_def split: prod.splits bool.splits)
next
  case (MessageResume m out)
  assume "due_tracked s"
  then show ?thesis
    by (simp add: MessageResume onmessage_resume_def due_interruption due_audio_try)
next
  case (Ended h)
  assume d: "due_tracked s"
  define s1 where
    "s1 = (emit [SourceEnded h] s)\<lparr>audioSourcesRef := removeAll h (audioSourcesRef s)\<rparr>"
  have "due_tracked s1"
    using d by (auto simp: s1_def due_tracked_def still_due_def emit_def)
  moreover have "on_ended h s = (if length (audioSourcesRef s1) = 0
      then setStatus Listening s1 else s1)"
    by (simp add: on_ended_def Let_def s1_def)
  ultimately show ?thesis
    by (simp add: Ended due_setStatus)
next
  case OnClose
  assume "due_tracked s"
  then show ?thesis
    by (simp add: OnClose onclose_def due_tracked_def still_due_def emit_def setStatus_def)
next
  case (OnError msg)
  assume d: "due_tracked s"
  show ?thesis
    unfolding OnError step.simps onerror_def
    by (intro due_disconnect due_update [OF _ _ d]) simp_all
next
  case ToggleMic
  assume "due_tracked s"
  then show ?thesis
    by (simp add: ToggleMic toggleMic_def due_tracked_def still_due_def emit_def
          Let_def foldl_play_TrackEnabled split: option.splits)
next
  case (StartVideoStream n)
  assume "due_tracked s"
  then show ?thesis
    by (simp add: StartVideoStream startVideoStream_def due_tracked_def still_due_def
          emit_def Let_def split: option.splits)
next
  case (FrameEncoded d)
  assume "due_tracked s"
  then show ?thesis
    by (simp add: FrameEncoded frame_encoded_def due_tracked_def still_due_def
          emit_def split: option.splits)
qed

lemma run_due: "due_tracked s \<Longrightarrow> due_tracked (run evs s)"
  by (induction evs arbitrary: s) (simp_all add: step_due)

lemma init_due: "due_tracked (run evs init)"
  by (rule run_due) (simp add: due_tracked_def still_due_def init_def)

subsection \<open>The claims about the hook\<close>

text \<open>
  Claim C9. In every execution of the hook, the status is never \<open>processing\<close>, and no call
  of \<open>setStatus\<close> has that argument: every status emitted is \<open>inactive\<close>, \<open>listening\<close> or
  \<open>speaking\<close>.
\<close>

theorem status_never_processing:
  "status (run evs init) \<noteq> Processing \<and> SetStatus Processing \<notin> set (effects (run evs init))"
  by (rule run_status) (simp add: init_def)

subsection \<open>disconnect\<close>

text \<open>
  Claim C3, as amended. \<open>disconnect\<close> is a total function of the state: each call in it
  is made on an object found non-null, and none is made otherwise. After it, the
  processing node, the source node, the stream, both audio contexts, the video timer and
  the session promise are null, the set of scheduled sources is empty, the connection and
  streaming flags are false and the status is \<open>inactive\<close>; the reference to the output gain
  node is left as it was. A second call in a row changes nothing and releases nothing (it
  only sets the status again), and so does a call on the initial state. Timer ids are
  taken to be non-zero, as \<open>window.setInterval\<close> returns them: the test on the timer
  would leave an id 0 in place.
\<close>

theorem disconnect_releases:
  assumes "videoIntervalRef s \<noteq> Some 0"
  shows "scriptProcessorRef (disconnect s) = None
       \<and> inputSourceRef (disconnect s) = None
       \<and> audioStreamRef (disconnect s) = None
       \<and> inputAudioContextRef (disconnect s) = None
       \<and> outputAudioContextRef (disconnect s) = None
       \<and> videoIntervalRef (disconnect s) = None
       \<and> sessionPromiseRef (disconnect s) = None
       \<and> audioSourcesRef (disconnect s) = []
       \<and> \<not> isConnected (disconnect s) \<and> \<not> isStreaming (disconnect s)
       \<and> status (disconnect s) = Inactive
       \<and> outputGainNodeRef (disconnect s) = outputGainNodeRef s
       \<and> disconnect (disconnect s) = emit [SetStatus Inactive] (disconnect s)
       \<and> disconnect init = emit [SetStatus Inactive] init"
  using assms
  by (simp add: disconnect_eq disconnect_effects_def opt_effect_def emit_def init_def)

theorem disconnect_releases_witness:
  "videoIntervalRef (init\<lparr>isConnected := True, scriptProcessorRef := Some 8,
       audioStreamRef := Some \<lparr>stream_id = 4, tracks = [(5, AudioKind)]\<rparr>,
       audioSourcesRef := [11, 12], videoIntervalRef := Some 9\<rparr>) \<noteq> Some 0
   \<and> audioStreamRef (disconnect (init\<lparr>isConnected := True, scriptProcessorRef := Some 8,
       audioStreamRef := Some \<lparr>stream_id = 4, tracks = [(5, AudioKind)]\<rparr>,
       audioSourcesRef := [11, 12], videoIntervalRef := Some 9\<rparr>)) = None
   \<and> videoIntervalRef (disconnect (init\<lparr>isConnected := True, scriptProcessorRef := Some 8,
       audioStreamRef := Some \<lparr>stream_id = 4, tracks = [(5, AudioKind)]\<rparr>,
       audioSourcesRef := [11, 12], videoIntervalRef := Some 9\<rparr>)) = None"
  using disconnect_releases [of "init\<lparr>isConnected := True, scriptProcessorRef := Some 8,
       audioStreamRef := Some \<lparr>stream_id = 4, tracks = [(5, AudioKind)]\<rparr>,
       audioSourcesRef := [11, 12], videoIntervalRef := Some 9\<rparr>"]
  by simp

text \<open>
  The claim as stated fails: after a \<open>connect\<close> that got as far as creating the gain node,
  \<open>disconnect\<close> leaves the reference to that node in place.
\<close>

theorem disconnect_keeps_gain_node:
  "outputGainNodeRef (disconnect (run [Connect \<lparr>api_key = Some ''k'', input_ctx = 1,
       output_ctx = 2, resume_error = None, gain_node = 3\<rparr>] init)) = Some 3"
  by (simp add: connect_def setStatus_def emit_def disconnect_eq init_def truthy_string_def)

subsection \<open>The microphone\<close>

text \<open>
  Claim C6. In every execution, an audio-process callback that runs while the microphone
  flag is false leaves the whole state as it was: nothing is sent, and nothing is kept
  for later.
\<close>

theorem muted_frames_dropped:
  "\<not> isMicOn (run evs init) \<Longrightarrow> onaudioprocess inputData (run evs init) = run evs init"
  by (simp add: init_mic onaudioprocess_def)

theorem muted_frames_dropped_witness:
  "\<not> isMicOn (run [ToggleMic] init)
   \<and> onaudioprocess [0.5, 0.25] (run [ToggleMic] init) = run [ToggleMic] init"
  using muted_frames_dropped [of "[ToggleMic]" "[0.5, 0.25]"]
  by (simp add: toggleMic_def init_def)

text \<open>
  Claim C7. \<open>toggleMic\<close> flips the microphone flag, so two calls restore it (the React
  state in every execution, the ref in any state at all); in any state, with or without
  a stream, it leaves the connection state as it is, and its only effects are to enable
  or disable the audio tracks of the stream.
\<close>

theorem toggleMic_involution:
  "isMicOn (toggleMic (toggleMic (run evs init))) = isMicOn (run evs init)
   \<and> isMicOn (toggleMic (run evs init)) = (\<not> isMicOn (run evs init))
   \<and> isMicOnRef (toggleMic (toggleMic s)) = isMicOnRef s
   \<and> isMicOnRef (toggleMic s) = (\<not> isMicOnRef s)
   \<and> connection_state (toggleMic s) = connection_state s
   \<and> effects (toggleMic s) = effects s @ map (\<lambda>t. TrackEnabled t (\<not> isMicOnRef s))
        (case audioStreamRef s of None \<Rightarrow> [] | Some st \<Rightarrow> getAudioTracks st)"
  using init_mic [of evs]
  by (simp add: toggleMic_def connection_state_def emit_def Let_def split: option.splits)

subsection \<open>Playback\<close>






text \<open>
  Claim C2. At any point of any execution, when the handler of a message carrying the
  interruption flag completes (at once, or after the decoding of audio in the same
  message has settled), \<open>stop\<close> has been called on every source of the tracking set, the
  set is empty, the cursor is zero and the status is \<open>listening\<close>; no source started
  before that is still due to play.
\<close>

theorem interruption_discards_playback:
  assumes "interrupted m"
  shows "audioSourcesRef (onmessage_resume m out (run evs init)) = []
       \<and> nextStartTimeRef (onmessage_resume m out (run evs init)) = 0
       \<and> status (onmessage_resume m out (run evs init)) = Listening
       \<and> effects (onmessage_resume m out (run evs init))
           = effects (audio_try out (run evs init))
             @ map SourceStop (audioSourcesRef (audio_try out (run evs init)))
             @ [SetStatus Listening]
       \<and> still_due (effects (onmessage_resume m out (run evs init))) = []
       \<and> audioSourcesRef (onmessage m now out (run evs init)) = []
       \<and> nextStartTimeRef (onmessage m now out (run evs init)) = 0
       \<and> status (onmessage m now out (run evs init)) = Listening
       \<and> set (map SourceStop (audioSourcesRef (run evs init)))
           \<subseteq> set (effects (onmessage m now out (run evs init)))
       \<and> still_due (effects (onmessage m now out (run evs init))) = []"
proof -
  let ?s = "run evs init"
  have d: "due_tracked ?s" by (rule init_due)
  have fields: "\<And>t. audioSourcesRef (interruption m t) = []
       \<and> nextStartTimeRef (interruption m t) = 0 \<and> status (interruption m t) = Listening
       \<and> effects (interruption m t)
            = effects t @ map SourceStop (audioSourcesRef t) @ [SetStatus Listening]"
    using assms by (simp add: interruption_def stop_sources_def setStatus_def emit_def)
  have due: "\<And>t. due_tracked t \<Longrightarrow> still_due (effects (interruption m t)) = []"
    using assms by (simp add: still_due_interruption)
  have r: "still_due (effects (onmessage_resume m out ?s)) = []"
    unfolding onmessage_resume_def by (intro due due_audio_try d)
  have whole: "onmessage m now out ?s = interruption m (audio_try out (snd (audio_prelude m now ?s)))
      \<or> onmessage m now out ?s = interruption m ?s"
    by (simp add: onmessage_def onmessage_resume_def audio_prelude_def)
  have w: "still_due (effects (onmessage m now out ?s)) = []"
    using whole due [OF due_audio_try [OF due_prelude [OF d]]] due [OF d] by metis
  have srcs: "set (map SourceStop (audioSourcesRef ?s))
           \<subseteq> set (effects (onmessage m now out ?s))"
    using assms
    by (cases out) (auto simp add: onmessage_def onmessage_resume_def audio_prelude_def
        audio_try_def interruption_def stop_sources_def setStatus_def emit_def add_source_def)
  show ?thesis
    using r w srcs fields whole
    by (auto simp add: onmessage_resume_def)
qed

theorem interruption_discards_playback_witness:
  "interrupted \<lparr>inlineData = None, interrupted = True\<rparr>
   \<and> audioSourcesRef (onmessage_resume \<lparr>inlineData = None, interrupted = True\<rparr> DecodeThrows
        (run [MessageResume \<lparr>inlineData = Some ''AAAA'', interrupted = False\<rparr> (Decoded 10 (1/2))] init)) = []
   \<and> still_due (effects (onmessage_resume \<lparr>inlineData = None, interrupted = True\<rparr> DecodeThrows
        (run [MessageResume \<lparr>inlineData = Some ''AAAA'', interrupted = False\<rparr> (Decoded 10 (1/2))] init))) = []
   \<and> effects (onmessage \<lparr>inlineData = None, interrupted = True\<rparr> 3 DecodeThrows
        (run [MessageResume \<lparr>inlineData = Some ''AAAA'', interrupted = False\<rparr> (Decoded 10 (1/2))] init))
      = [SourceStart 10 0 (1/2), SourceStop 10, SetStatus Listening]"
  using interruption_discards_playback [of "\<lparr>inlineData = None, interrupted = True\<rparr>" DecodeThrows
     "[MessageResume \<lparr>inlineData = Some ''AAAA'', interrupted = False\<rparr> (Decoded 10 (1/2))]" 3]
  by (simp add: op_defs init_def truthy_string_def add_source_def)



section \<open>Properties of the chat hook\<close>

text \<open>
  Claim C5, as amended. \<open>sendMessage\<close> appends the user's entry before the request
  settles; the whole call appends exactly two entries, the user's and one more. With an
  API key and a reply, the second entry is the reply text, or the literal
  \<open>No response generated.\<close> when the reply has no text, with \<open>isThinking\<close> set to whether
  the tier is the reasoning tier. When the request fails, or there is no API key, the
  second entry is the literal \<open>Error: Could not generate response.\<close> and carries no
  \<open>isThinking\<close> at all, whatever the tier. One request is issued when there is a key, none
  otherwise. So ``Hello'' on the low-latency tier, from an empty transcript and with a
  reply of non-empty text \<open>r\<close>, gives exactly the user's entry and the entry of \<open>r\<close>
  with the flag false; on the reasoning tier the flag is true.
\<close>

theorem sendMessage_transcript:
  "messages (sendMessage_start apiKey txt tier s)
     = messages s @ (\<lparr>role = UserRole, msg_text = txt, isThinking = None\<rparr>
         # (if truthy_string apiKey then []
            else [\<lparr>role = ModelRole, msg_text = ''Error: Could not generate response.'',
                   isThinking = None\<rparr>]))
   \<and> messages (sendMessage apiKey txt tier outcome s)
     = messages s @
       [\<lparr>role = UserRole, msg_text = txt, isThinking = None\<rparr>,
        (if truthy_string apiKey
         then (case outcome of
                 Replied responseText \<Rightarrow>
                   \<lparr>role = ModelRole,
                    msg_text = or_default responseText ''No response generated.'',
                    isThinking = Some (tier = Thinking)\<rparr>
               | Rejected e \<Rightarrow>
                   \<lparr>role = ModelRole, msg_text = ''Error: Could not generate response.'',
                    isThinking = None\<rparr>)
         else \<lparr>role = ModelRole, msg_text = ''Error: Could not generate response.'',
                isThinking = None\<rparr>)]
   \<and> length (messages (sendMessage_settle tier outcome t)) = length (messages t) + 1
   \<and> length (requests (sendMessage apiKey txt tier outcome s))
       = length (requests s) + (if truthy_string apiKey then 1 else 0)
   \<and> (k \<noteq> [] \<and> r \<noteq> [] \<longrightarrow>
        messages (sendMessage (Some k) ''Hello'' Fast (Replied (Some r)) chat_init)
          = [\<lparr>role = UserRole, msg_text = ''Hello'', isThinking = None\<rparr>,
             \<lparr>role = ModelRole, msg_text = r, isThinking = Some False\<rparr>]
        \<and> messages (sendMessage (Some k) ''Hello'' Thinking (Replied (Some r)) chat_init)
          = [\<lparr>role = UserRole, msg_text = ''Hello'', isThinking = None\<rparr>,
             \<lparr>role = ModelRole, msg_text = r, isThinking = Some True\<rparr>])"
  by (simp add: sendMessage_def sendMessage_start_def sendMessage_settle_def
        sendMessage_catch_def chat_init_def or_default_def truthy_string_def Let_def
        split: generate_outcome.splits)

theorem sendMessage_transcript_witness:
  "''key'' \<noteq> [] \<and> ''Hi there'' \<noteq> []
   \<and> messages (sendMessage (Some ''key'') ''Hello'' Fast (Replied (Some ''Hi there'')) chat_init)
        = [\<lparr>role = UserRole, msg_text = ''Hello'', isThinking = None\<rparr>,
           \<lparr>role = ModelRole, msg_text = ''Hi there'', isThinking = Some False\<rparr>]"
  using sendMessage_transcript [of "Some ''key''" "''Hello''" Fast chat_init
      "Replied (Some ''Hi there'')" chat_init "''key''" "''Hi there''"]
  by (simp add: truthy_string_def chat_init_def or_default_def)

text \<open>
  The claim as stated fails where it has the failure placeholder tagged: on the reasoning
  tier a failed request leaves an entry without the flag. And a reply without text is
  replaced by a literal.
\<close>

theorem sendMessage_failure_untagged:
  "isThinking (last (messages
       (sendMessage (Some ''key'') ''Hello'' Thinking (Rejected (Some ''503'')) chat_init)))
     \<noteq> Some True
   \<and> messages (sendMessage (Some ''key'') ''Hello'' Thinking (Rejected (Some ''503'')) chat_init)
     = [\<lparr>role = UserRole, msg_text = ''Hello'', isThinking = None\<rparr>,
        \<lparr>role = ModelRole, msg_text = ''Error: Could not generate response.'',
          isThinking = None\<rparr>]
   \<and> messages (sendMessage (Some ''key'') ''Hello'' Fast (Replied (Some '''')) chat_init)
     = [\<lparr>role = UserRole, msg_text = ''Hello'', isThinking = None\<rparr>,
        \<lparr>role = ModelRole, msg_text = ''No response generated.'',
          isThinking = Some False\<rparr>]"
  by (simp add: sendMessage_def sendMessage_start_def sendMessage_settle_def
        sendMessage_catch_def chat_init_def or_default_def truthy_string_def Let_def)

section \<open>Properties of the identity provider\<close>

text \<open>Without \<open>auth\<close> the only identity there can be is the guest.\<close>

lemma auth_step_inv:
  "\<not> auth \<Longrightarrow> user s = None \<or> is_guest (user s) \<Longrightarrow>
   user (auth_step auth e s) = None \<or> is_guest (user (auth_step auth e s))"
  by (cases e) (auto simp: on_mount_def signOut_def continueAsGuest_def is_guest_def
        split: option.splits)

lemma auth_run_inv:
  "\<not> auth \<Longrightarrow> user s = None \<or> is_guest (user s) \<Longrightarrow>
   user (auth_run auth evs s) = None \<or> is_guest (user (auth_run auth evs s))"
proof (induction evs arbitrary: s)
  case Nil
  then show ?case by simp
next
  case (Cons e evs)
  from Cons.prems have "user (auth_step auth e s) = None \<or> is_guest (user (auth_step auth e s))"
    by (rule auth_step_inv)
  from Cons.IH [OF Cons.prems(1) this] show ?case by simp
qed

text \<open>
  Claim C8. When the current identity is the guest (anonymous, with the sentinel email),
  \<open>signOut\<close> clears the user and returns without an error and without any call to the
  provider; in particular after \<open>continueAsGuest\<close>. In every execution, when the current
  identity is any other user, \<open>signOut\<close> calls the provider's sign-out.
\<close>

theorem signOut_guest_local:
  "(is_guest (user s) \<longrightarrow> signOut auth failure s = (None, s\<lparr>user := None\<rparr>))
   \<and> signOut auth failure (continueAsGuest stamp s) = (None, s\<lparr>user := None\<rparr>)
   \<and> calls (snd (signOut auth failure (continueAsGuest stamp s))) = calls s
   \<and> (user (auth_run auth evs auth_init) \<noteq> None
        \<and> \<not> is_guest (user (auth_run auth evs auth_init)) \<longrightarrow>
      calls (snd (signOut auth failure (auth_run auth evs auth_init)))
        = calls (auth_run auth evs auth_init) @ [FirebaseSignOut])"
proof -
  let ?r = "auth_run auth evs auth_init"
  have guest: "is_guest (user s) \<longrightarrow> signOut auth failure s = (None, s\<lparr>user := None\<rparr>)"
    by (simp add: signOut_def)
  have fresh: "signOut auth failure (continueAsGuest stamp s) = (None, s\<lparr>user := None\<rparr>)"
    by (simp add: signOut_def continueAsGuest_def is_guest_def)
  have quiet: "calls (snd (signOut auth failure (continueAsGuest stamp s))) = calls s"
    by (simp add: fresh)
  have delegated: "calls (snd (signOut auth failure ?r)) = calls ?r @ [FirebaseSignOut]"
    if some: "user ?r \<noteq> None" and real: "\<not> is_guest (user ?r)"
  proof -
    have "auth"
    proof (rule ccontr)
      assume off: "\<not> auth"
      have "user auth_init = None \<or> is_guest (user auth_init)"
        by (simp add: auth_init_def)
      from auth_run_inv [OF off this, where evs = evs] some real show False by blast
    qed
    with real show ?thesis
      by (simp add: signOut_def Let_def split: option.splits)
  qed
  from guest fresh quiet delegated show ?thesis by blast
qed

theorem signOut_guest_local_witness:
  "is_guest (user (auth_run False [Mount, ContinueAsGuest ''1700000000000''] auth_init))
   \<and> fst (signOut False None (auth_run False [Mount, ContinueAsGuest ''1700000000000''] auth_init)) = None
   \<and> user (auth_run True [Mount, AuthStateChanged (Some \<lparr>uid = ''u1'', email = Some ''a@b.c'',
         displayName = None, isAnonymous = False, providerId = ''firebase''\<rparr>)] auth_init) \<noteq> None
   \<and> \<not> is_guest (user (auth_run True [Mount, AuthStateChanged (Some \<lparr>uid = ''u1'',
         email = Some ''a@b.c'', displayName = None, isAnonymous = False,
         providerId = ''firebase''\<rparr>)] auth_init))
   \<and> calls (snd (signOut True None (auth_run True [Mount, AuthStateChanged (Some \<lparr>uid = ''u1'',
         email = Some ''a@b.c'', displayName = None, isAnonymous = False,
         providerId = ''firebase''\<rparr>)] auth_init))) = [FirebaseSignOut]"
  using signOut_guest_local [where auth = False and failure = None
      and s = "auth_run False [Mount, ContinueAsGuest ''1700000000000''] auth_init"]
    signOut_guest_local [where auth = True and failure = None
      and evs = "[Mount, AuthStateChanged (Some \<lparr>uid = ''u1'',
         email = Some ''a@b.c'', displayName = None, isAnonymous = False,
         providerId = ''firebase''\<rparr>)]"]
  by (simp add: on_mount_def on_auth_state_changed_def continueAsGuest_def is_guest_def
        auth_init_def)

section \<open>Properties of startMedia\<close>

text \<open>The request counter never decreases, and every call of \<open>startMedia\<close> increases it.\<close>

lemma app_step_counter:
  "startMediaRequestRef s \<le> startMediaRequestRef (app_step e s)
   \<and> (is_start e \<longrightarrow> startMediaRequestRef s < startMediaRequestRef (app_step e s))"
  by (cases e) (auto simp: startMedia_begin_def startMedia_acquired_def startMedia_finally_def
        startMedia_failed_def startMedia_played_def handleDisconnect_def track_ended_def
        stop_tracks_def Let_def split: option.splits)

lemma app_run_counter:
  "startMediaRequestRef s \<le> startMediaRequestRef (app_run evs s)
   \<and> ((\<exists>e\<in>set evs. is_start e) \<longrightarrow> startMediaRequestRef s < startMediaRequestRef (app_run evs s))"
proof (induction evs arbitrary: s)
  case Nil
  then show ?case by simp
next
  case (Cons e evs)
  show ?case
    using app_step_counter [of s e] Cons.IH [of "app_step e s"]
    by (auto simp del: app_step.simps)
qed

text \<open>
  Claim C4. Take a call of \<open>startMedia\<close> and any execution that follows it and contains
  another call of \<open>startMedia\<close>. When the device request of the first call then resolves
  with a stream, the call stops every track of that stream, leaves the stream ref as it
  is, and is over (it does not go on to play the video).
\<close>

theorem superseded_request_discarded:
  assumes "\<exists>e\<in>set evs. is_start e"
  shows "startMedia_acquired (fst (startMedia_begin mode s)) mode stream caps v
           (app_run evs (snd (startMedia_begin mode s)))
         = (False, stop_tracks stream (app_run evs (snd (startMedia_begin mode s))))
       \<and> streamRef (snd (startMedia_acquired (fst (startMedia_begin mode s)) mode stream caps v
           (app_run evs (snd (startMedia_begin mode s)))))
         = streamRef (app_run evs (snd (startMedia_begin mode s)))
       \<and> media_effects (snd (startMedia_acquired (fst (startMedia_begin mode s)) mode stream caps v
           (app_run evs (snd (startMedia_begin mode s)))))
         = media_effects (app_run evs (snd (startMedia_begin mode s)))
           @ map TrackStop (getTracks stream)"
proof -
  let ?s1 = "snd (startMedia_begin mode s)"
  have "startMediaRequestRef ?s1 < startMediaRequestRef (app_run evs ?s1)"
    using assms app_run_counter [of ?s1 evs] by blast
  moreover have "fst (startMedia_begin mode s) = startMediaRequestRef ?s1"
    by (simp add: startMedia_begin_def Let_def)
  ultimately have "fst (startMedia_begin mode s) \<noteq> startMediaRequestRef (app_run evs ?s1)"
    by simp
  then show ?thesis
    by (simp add: startMedia_acquired_def startMedia_finally_def stop_tracks_def)
qed

theorem superseded_request_discarded_witness:
  "(\<exists>e\<in>set [StartMedia SCREEN]. is_start e)
   \<and> streamRef (snd (startMedia_acquired (fst (startMedia_begin CAMERA app_init)) CAMERA
         \<lparr>stream_id = 20, tracks = [(21, VideoKind)]\<rparr>
         \<lparr>zoom = None, focus = None, torch = None\<rparr> True
         (app_run [StartMedia SCREEN] (snd (startMedia_begin CAMERA app_init))))) = None
   \<and> media_effects (snd (startMedia_acquired (fst (startMedia_begin CAMERA app_init)) CAMERA
         \<lparr>stream_id = 20, tracks = [(21, VideoKind)]\<rparr>
         \<lparr>zoom = None, focus = None, torch = None\<rparr> True
         (app_run [StartMedia SCREEN] (snd (startMedia_begin CAMERA app_init))))) = [TrackStop 21]"
  using superseded_request_discarded [of "[StartMedia SCREEN]" CAMERA app_init
         "\<lparr>stream_id = 20, tracks = [(21, VideoKind)]\<rparr>"
         "\<lparr>zoom = None, focus = None, torch = None\<rparr>" True]
  by (simp add: startMedia_begin_def app_init_def getTracks_def stop_tracks_def Let_def)

end
